theory Spec2Isabelle
  imports Complex_Main
begin

section \<open>Values exchanged with the gateway\<close>

text \<open>
  The gateway (\<^verbatim>\<open>dsa-backend/server.js\<close>) receives request bodies parsed by
  \<^verbatim>\<open>express.json()\<close> and hands parsed upstream data to \<^verbatim>\<open>res.json\<close>. Both are
  JSON values. A number is the value of the parsed double.
\<close>

datatype json =
    JNull
  | JBool bool
  | JNum rat
  | JStr string
  | JArr "json list"
  | JObj "(string \<times> json) list"

text \<open>
  Reading a property gives a value or \<^verbatim>\<open>undefined\<close>; \<open>None\<close> stands for
  \<^verbatim>\<open>undefined\<close>. \<open>truthy\<close> is JavaScript's ToBoolean, which \<^verbatim>\<open>!x\<close> and
  \<^verbatim>\<open>a && b\<close> apply: \<^verbatim>\<open>undefined\<close>, \<^verbatim>\<open>null\<close>, \<^verbatim>\<open>false\<close>, zero and the empty
  string are falsy, every array and object is truthy.
\<close>

fun truthy :: "json option \<Rightarrow> bool" where
  "truthy None = False"
| "truthy (Some JNull) = False"
| "truthy (Some (JBool b)) = b"
| "truthy (Some (JNum n)) = (n \<noteq> 0)"
| "truthy (Some (JStr s)) = (s \<noteq> [])"
| "truthy (Some (JArr xs)) = True"
| "truthy (Some (JObj kvs)) = True"

text \<open>
  The parsed body of a request: the properties of \<^verbatim>\<open>req.body\<close> by name. The body
  is a JSON object, as \<^verbatim>\<open>express.json()\<close> leaves it for a request that carries one.
\<close>

type_synonym req_body = "string \<rightharpoonup> json"

text \<open>
  What a handler sends back: the status given to \<^verbatim>\<open>res.status\<close> (200 when the
  handler calls \<^verbatim>\<open>res.json\<close> alone) and the value given to \<^verbatim>\<open>res.json\<close>, which is a
  folder tree on the listing endpoint and a JSON value elsewhere.
\<close>

type_synonym folder_tree = "string \<rightharpoonup> string list"

datatype payload = TreeBody folder_tree | JsonBody json

record reply =
  status :: nat
  body :: payload

definition error_body :: "string \<Rightarrow> payload" where
  "error_body msg = JsonBody (JObj [(''error'', JStr msg)])"

section \<open>POST /api/create-file\<close>

text \<open>
  \<^verbatim>\<open>axios.post\<close> either resolves with a response (its status and parsed data) or
  rejects with an error object, of which the handler reads \<^verbatim>\<open>error.code\<close> and
  \<^verbatim>\<open>error.response\<close> (the upstream status and data, when an answer arrived).
\<close>

record axios_error =
  code :: "string option"
  response :: "(nat \<times> json) option"

datatype axios_result = Resolved nat json | Rejected axios_error

text \<open>
  \<^verbatim>\<open>['check', 'overwrite', 'version', 'reject'].includes(action)\<close>: the comparison
  is SameValueZero against four strings, so only a string can be included.
\<close>

definition valid_actions :: "string list" where
  "valid_actions = [''check'', ''overwrite'', ''version'', ''reject'']"

fun includes_action :: "json option \<Rightarrow> bool" where
  "includes_action (Some (JStr s)) = (s \<in> set valid_actions)"
| "includes_action _ = False"

text \<open>
  The object literal \<^verbatim>\<open>{ topFolder, subFolder, filename, content, action }\<close> that is
  posted: the five destructured names in this order. A property whose value is
  \<^verbatim>\<open>undefined\<close> is left out when the object is serialised.
\<close>

definition forwarded_fields :: "string list" where
  "forwarded_fields = [''topFolder'', ''subFolder'', ''filename'', ''content'', ''action'']"

definition forwarded :: "req_body \<Rightarrow> json" where
  "forwarded b = JObj (List.map_filter (\<lambda>k. map_option (Pair k) (b k)) forwarded_fields)"

text \<open>
  The \<^verbatim>\<open>catch\<close> block of the handler: connection refused first, then an
  upstream answer passed through, then the generic 500.
\<close>

definition on_error :: "axios_error \<Rightarrow> reply" where
  "on_error e =
     (if code e = Some ''ECONNREFUSED''
      then \<lparr>status = 503,
            body = error_body ''Python service not available. Is it running on port 5000?''\<rparr>
      else case response e of
             Some (st, d) \<Rightarrow> \<lparr>status = st, body = JsonBody d\<rparr>
           | None \<Rightarrow> \<lparr>status = 500, body = error_body ''Internal server error''\<rparr>)"

text \<open>
  The template literal of the \<^verbatim>\<open>console.log\<close> before the call converts
  \<^verbatim>\<open>topFolder\<close>, \<^verbatim>\<open>subFolder\<close>, \<^verbatim>\<open>filename\<close> and \<^verbatim>\<open>action\<close> to strings. The
  conversion of a parsed JSON value throws a \<^verbatim>\<open>TypeError\<close> exactly when it meets an
  object with an own property \<^verbatim>\<open>toString\<close> (which is not callable, and
  \<^verbatim>\<open>valueOf\<close> gives no primitive either); an array is joined, which converts its
  elements other than \<^verbatim>\<open>null\<close>. An object without that property becomes
  \<^verbatim>\<open>[object Object]\<close>, and \<^verbatim>\<open>undefined\<close> becomes \<^verbatim>\<open>undefined\<close>.
\<close>

fun stringifies :: "json \<Rightarrow> bool" where
  "stringifies (JArr xs) = (\<forall>x \<in> set xs. stringifies x)"
| "stringifies (JObj kvs) = (''toString'' \<notin> fst ` set kvs)"
| "stringifies JNull = True"
| "stringifies (JBool b) = True"
| "stringifies (JNum n) = True"
| "stringifies (JStr s) = True"

definition interpolates :: "json option \<Rightarrow> bool" where
  "interpolates v = (case v of None \<Rightarrow> True | Some x \<Rightarrow> stringifies x)"

text \<open>
  The handler. \<open>post\<close> is the persistence service seen through
  \<^verbatim>\<open>axios.post(PYTHON_SERVICE + '/create-file', payload, {timeout: 30000})\<close>: what the
  call does with the payload it is given. The result is the reply and the list of
  payloads posted to the persistence service, in order. A \<^verbatim>\<open>TypeError\<close> thrown by
  the log line is caught by the same \<^verbatim>\<open>catch\<close> block; it has neither a
  \<^verbatim>\<open>code\<close> nor a \<^verbatim>\<open>response\<close>.
\<close>

definition createFile :: "req_body \<Rightarrow> (json \<Rightarrow> axios_result) \<Rightarrow> reply \<times> json list" where
  "createFile b post =
     (if \<not> truthy (b ''topFolder'') \<or> \<not> truthy (b ''subFolder'')
         \<or> \<not> truthy (b ''filename'') \<or> \<not> truthy (b ''content'')
      then (\<lparr>status = 400, body = error_body ''Missing required fields''\<rparr>, [])
      else if \<not> includes_action (b ''action'')
      then (\<lparr>status = 400, body = error_body ''Invalid action''\<rparr>, [])
      else if \<not> (interpolates (b ''topFolder'') \<and> interpolates (b ''subFolder'')
                  \<and> interpolates (b ''filename'') \<and> interpolates (b ''action''))
      then (on_error \<lparr>code = None, response = None\<rparr>, [])
      else let p = forwarded b in
        (case post p of
           Resolved st d \<Rightarrow> (\<lparr>status = 200, body = JsonBody d\<rparr>, [p])
         | Rejected e \<Rightarrow> (on_error e, [p])))"

section \<open>The folder cache and the listing service\<close>

text \<open>
  The two module variables \<^verbatim>\<open>folderCache\<close> and \<^verbatim>\<open>cacheTimestamp\<close>; \<open>None\<close> is
  \<^verbatim>\<open>null\<close>. Times are \<^verbatim>\<open>Date.now()\<close> readings, in milliseconds.
\<close>

record gateway =
  folderCache :: "folder_tree option"
  cacheTimestamp :: "int option"

definition initial :: gateway where
  "initial = \<lparr>folderCache = None, cacheTimestamp = None\<rparr>"

definition CACHE_TTL :: int where
  "CACHE_TTL = 5 * 60 * 1000"

text \<open>
  The test \<^verbatim>\<open>folderCache && cacheTimestamp && (now - cacheTimestamp < CACHE_TTL)\<close>,
  giving the tree to return when it passes. An object is truthy; a number is truthy
  unless it is zero.
\<close>

definition cached :: "gateway \<Rightarrow> int \<Rightarrow> folder_tree option" where
  "cached s now =
     (case folderCache s of
        None \<Rightarrow> None
      | Some t \<Rightarrow>
          (case cacheTimestamp s of
             None \<Rightarrow> None
           | Some ts \<Rightarrow> if ts \<noteq> 0 \<and> now - ts < CACHE_TTL then Some t else None))"

text \<open>
  The listing service answers \<^verbatim>\<open>GET /contents[/<path>]\<close> with a sequence of
  entries that carry a name and a type, both strings. \<open>NotAListing\<close> is any other
  data, on which \<^verbatim>\<open>.filter(item => item.type === 'dir')\<close> throws; \<open>GhFailed\<close> is
  \<^verbatim>\<open>axios.get\<close> rejecting (network error or a status outside 2xx).

  \<open>contents_root\<close> is the outcome of the request for \<^verbatim>\<open>/contents\<close>, and
  \<open>contents_of\<close> gives, for a text \<open>x\<close>, the outcome of the request for the URL
  that ends in \<^verbatim>\<open>/contents/\<close> followed by \<open>x\<close> as it stands. The code pastes a
  folder's name there without encoding it, so this is the listing of that folder only
  when the name has no character with a meaning in a URL (such as \<^verbatim>\<open>#\<close> or
  \<^verbatim>\<open>?\<close>); for another name it is whatever the service answers for the URL so formed.
\<close>

record gh_entry =
  name :: string
  type :: string

datatype gh_data = Listing "gh_entry list" | NotAListing

datatype gh_result = GhOk gh_data | GhFailed

record github =
  contents_root :: gh_result
  contents_of :: "string \<Rightarrow> gh_result"

datatype fetch_error = RequestFailed | TypeError

text \<open>
  \<^verbatim>\<open>folderTree[k] = v\<close> on an object created by \<^verbatim>\<open>{}\<close> writes an own property,
  except for the name \<^verbatim>\<open>__proto__\<close>: that name is an accessor of
  \<^verbatim>\<open>Object.prototype\<close>, and assigning an array to it replaces the prototype of
  \<^verbatim>\<open>folderTree\<close> and creates no own property, so the serialised tree has no such key.
\<close>

definition obj_set :: "folder_tree \<Rightarrow> string \<Rightarrow> string list \<Rightarrow> folder_tree" where
  "obj_set t k v = (if k = ''__proto__'' then t else t(k \<mapsto> v))"

definition only_dirs :: "gh_entry list \<Rightarrow> gh_entry list" where
  "only_dirs items = filter (\<lambda>item. type item = ''dir'') items"

text \<open>
  The inner \<^verbatim>\<open>try\<close> of the loop: the names of the directory entries of one folder,
  and the empty list when the request or the filtering throws.
\<close>

fun subFolders :: "gh_result \<Rightarrow> string list" where
  "subFolders (GhOk (Listing items)) = map name (only_dirs items)"
| "subFolders (GhOk NotAListing) = []"
| "subFolders GhFailed = []"

text \<open>The loop \<^verbatim>\<open>for (const folder of rootItems)\<close>.\<close>

fun fill_tree :: "(string \<Rightarrow> gh_result) \<Rightarrow> gh_entry list \<Rightarrow> folder_tree \<Rightarrow> folder_tree" where
  "fill_tree sub [] folderTree = folderTree"
| "fill_tree sub (folder # rest) folderTree =
     fill_tree sub rest (obj_set folderTree (name folder) (subFolders (sub (name folder))))"

definition fetchFoldersFromGitHub :: "github \<Rightarrow> fetch_error + folder_tree" where
  "fetchFoldersFromGitHub gh =
     (case contents_root gh of
        GhFailed \<Rightarrow> Inl RequestFailed
      | GhOk NotAListing \<Rightarrow> Inl TypeError
      | GhOk (Listing items) \<Rightarrow> Inr (fill_tree (contents_of gh) (only_dirs items) Map.empty))"

definition getFallbackFolders :: folder_tree where
  "getFallbackFolders =
     [''DS'' \<mapsto> [''Arrays'', ''LinkedList'', ''Stack'', ''Queue'', ''Tree'', ''Graph''],
      ''Patterns'' \<mapsto> [''TwoPointers'', ''SlidingWindow'', ''BinarySearch'', ''DFS'', ''BFS''],
      ''Algorithms'' \<mapsto> [''Sorting'', ''Searching'', ''DynamicProgramming''],
      ''Practice'' \<mapsto> [''Easy'', ''Medium'', ''Hard'']]"

section \<open>GET /api/folders and GET /health\<close>

text \<open>
  One listing call reads the clock (\<open>now\<close>), and when the cache does not answer it
  calls \<open>fetchFoldersFromGitHub\<close> and, on success, reads the clock again (\<open>stamp\<close>).
  The result is the new state, the reply and the number of times the call invoked
  \<open>fetchFoldersFromGitHub\<close>.
\<close>

definition getFolders :: "gateway \<Rightarrow> int \<Rightarrow> github \<Rightarrow> int \<Rightarrow> gateway \<times> reply \<times> nat" where
  "getFolders s now gh stamp =
     (case cached s now of
        Some t \<Rightarrow> (s, \<lparr>status = 200, body = TreeBody t\<rparr>, 0)
      | None \<Rightarrow>
          (case fetchFoldersFromGitHub gh of
             Inr folders \<Rightarrow>
               (\<lparr>folderCache = Some folders, cacheTimestamp = Some stamp\<rparr>,
                \<lparr>status = 200, body = TreeBody folders\<rparr>, 1)
           | Inl githubError \<Rightarrow>
               (s, \<lparr>status = 200, body = TreeBody getFallbackFolders\<rparr>, 1)))"

definition health :: "gateway \<Rightarrow> reply" where
  "health s =
     \<lparr>status = 200,
      body = JsonBody (JObj
        [(''status'', JStr ''ok''),
         (''service'', JStr ''node-gateway''),
         (''cacheStatus'', JStr (if folderCache s \<noteq> None then ''loaded'' else ''empty''))])\<rparr>"

text \<open>
  The gateway as a whole: each request is served against the current state. The
  environment of a request (clock readings, what the upstream services do) is part of it.
\<close>

datatype request =
    Folders int github int
  | CreateFile req_body "json \<Rightarrow> axios_result"
  | Health

fun handle :: "gateway \<Rightarrow> request \<Rightarrow> gateway \<times> reply" where
  "handle s (Folders now gh stamp) = (case getFolders s now gh stamp of (s', r, n) \<Rightarrow> (s', r))"
| "handle s (CreateFile b post) = (s, fst (createFile b post))"
| "handle s Health = (s, health s)"

fun serve :: "gateway \<Rightarrow> request list \<Rightarrow> gateway" where
  "serve s [] = s"
| "serve s (r # rs) = serve (fst (handle s r)) rs"


section \<open>Vocabulary of the specification\<close>

text \<open>
  A required field is missing or empty when the body has no such property or has the
  empty string there; it is non-empty text when it holds a string with at least one
  character (the specification types the fields of a CreationRequest as strings).
\<close>

definition missing_or_empty :: "json option \<Rightarrow> bool" where
  "missing_or_empty v = (v = None \<or> v = Some (JStr []))"

fun nonempty_text :: "json option \<Rightarrow> bool" where
  "nonempty_text (Some (JStr s)) = (s \<noteq> [])"
| "nonempty_text _ = False"

definition action_allowed :: "json option \<Rightarrow> bool" where
  "action_allowed v =
     (v \<in> {Some (JStr ''check''), Some (JStr ''overwrite''),
           Some (JStr ''version''), Some (JStr ''reject'')})"

definition well_formed :: "req_body \<Rightarrow> bool" where
  "well_formed b =
     (nonempty_text (b ''topFolder'') \<and> nonempty_text (b ''subFolder'')
      \<and> nonempty_text (b ''filename'') \<and> nonempty_text (b ''content'')
      \<and> action_allowed (b ''action''))"

text \<open>
  A CacheEntry exists when both variables are set, and it is fresh at \<open>now\<close> when its
  age \<open>now - fetchedAt\<close> is below the TTL.
\<close>

definition fresh_entry :: "gateway \<Rightarrow> int \<Rightarrow> bool" where
  "fresh_entry s now =
     (case (folderCache s, cacheTimestamp s) of
        (Some t, Some ts) \<Rightarrow> now - ts < CACHE_TTL
      | _ \<Rightarrow> False)"

definition has_entry :: "gateway \<Rightarrow> bool" where
  "has_entry s = (folderCache s \<noteq> None \<and> cacheTimestamp s \<noteq> None)"

text \<open>The body of the health reply, for a given \<open>cacheStatus\<close>.\<close>

definition health_body :: "string \<Rightarrow> payload" where
  "health_body c =
     JsonBody (JObj [(''status'', JStr ''ok''), (''service'', JStr ''node-gateway''),
                     (''cacheStatus'', JStr c)])"

section \<open>Concrete requests and environments\<close>

text \<open>The request of the specification's end-to-end scenario A, and variations of it.\<close>

definition scenario_A :: req_body where
  "scenario_A =
     [''topFolder'' \<mapsto> JStr ''DS'', ''subFolder'' \<mapsto> JStr ''Arrays'',
      ''filename'' \<mapsto> JStr ''a.cpp'', ''content'' \<mapsto> JStr ''x'',
      ''action'' \<mapsto> JStr ''check'']"

definition created_A :: json where
  "created_A = JObj [(''success'', JBool True), (''path'', JStr ''DS/Arrays/a.cpp'')]"

text \<open>
  What \<^verbatim>\<open>axios.post\<close> rejects with when the connection is refused, and when the
  30000 ms timeout of the call expires (no response; the code is \<^verbatim>\<open>ECONNABORTED\<close>).
\<close>

definition refused :: axios_error where
  "refused = \<lparr>code = Some ''ECONNREFUSED'', response = None\<rparr>"

definition timed_out :: axios_error where
  "timed_out = \<lparr>code = Some ''ECONNABORTED'', response = None\<rparr>"

text \<open>
  A repository with two top-level directories and a file; \<^verbatim>\<open>DS\<close> lists two
  directories and a file, and listing \<^verbatim>\<open>Patterns\<close> fails.
\<close>

definition repo_contents :: "string \<Rightarrow> gh_result" where
  "repo_contents path =
     (if path = ''DS''
      then GhOk (Listing [\<lparr>name = ''Arrays'', type = ''dir''\<rparr>,
                          \<lparr>name = ''notes.md'', type = ''file''\<rparr>,
                          \<lparr>name = ''Graph'', type = ''dir''\<rparr>])
      else GhFailed)"

definition repo :: github where
  "repo =
     \<lparr>contents_root = GhOk (Listing [\<lparr>name = ''DS'', type = ''dir''\<rparr>,
                                      \<lparr>name = ''README.md'', type = ''file''\<rparr>,
                                      \<lparr>name = ''Patterns'', type = ''dir''\<rparr>]),
      contents_of = repo_contents\<rparr>"

definition repo_tree :: folder_tree where
  "repo_tree = [''DS'' \<mapsto> [''Arrays'', ''Graph''], ''Patterns'' \<mapsto> []]"

definition unreachable :: github where
  "unreachable = \<lparr>contents_root = GhFailed, contents_of = (\<lambda>path. GhFailed)\<rparr>"

text \<open>
  A repository whose root holds the directories \<^verbatim>\<open>DS\<close> and \<^verbatim>\<open>__proto__\<close>;
  listing \<^verbatim>\<open>__proto__\<close> fails.
\<close>

definition proto_repo :: github where
  "proto_repo =
     \<lparr>contents_root = GhOk (Listing [\<lparr>name = ''DS'', type = ''dir''\<rparr>,
                                      \<lparr>name = ''__proto__'', type = ''dir''\<rparr>]),
      contents_of = repo_contents\<rparr>"

text \<open>Malformed variations of the scenario A request, and one with extra fields.\<close>

definition empty_content :: req_body where
  "empty_content = scenario_A(''content'' \<mapsto> JStr [])"

definition unknown_action :: req_body where
  "unknown_action = scenario_A(''action'' \<mapsto> JStr ''delete'')"

definition no_action :: req_body where
  "no_action = scenario_A(''action'' := None)"

definition empty_and_unknown :: req_body where
  "empty_and_unknown = scenario_A(''filename'' \<mapsto> JStr [], ''action'' \<mapsto> JStr ''delete'')"

definition extra_fields :: req_body where
  "extra_fields = scenario_A(''admin'' \<mapsto> JBool True, ''path'' \<mapsto> JStr ''/etc/passwd'')"

definition creates_A :: "json \<Rightarrow> axios_result" where
  "creates_A p = Resolved 201 created_A"

definition conflict :: axios_error where
  "conflict =
     \<lparr>code = Some ''ERR_BAD_REQUEST'',
      response = Some (409, JObj [(''success'', JBool False), (''error'', JStr ''conflict'')])\<rparr>"

text \<open>The tree fetched from \<open>proto_repo\<close>.\<close>

definition proto_tree :: folder_tree where
  "proto_tree = [''DS'' \<mapsto> [''Arrays'', ''Graph'']]"

text \<open>
  The cache after \<open>repo\<close> was fetched at time 1200, and two later listing calls, both
  less than five minutes after it.
\<close>

definition warm_cache :: gateway where
  "warm_cache = \<lparr>folderCache = Some repo_tree, cacheTimestamp = Some 1200\<rparr>"



text \<open>A request whose \<open>topFolder\<close> is an object that cannot be turned into a string.\<close>

definition unprintable_folder :: req_body where
  "unprintable_folder = scenario_A(''topFolder'' \<mapsto> JObj [(''toString'', JNum 1)])"

section \<open>Properties of the creation handler\<close>

subsection \<open>Validation and forwarding, case by case\<close>

lemma text_is_truthy: "nonempty_text v \<Longrightarrow> truthy v"
  by (induction v rule: nonempty_text.induct) simp_all

lemma empty_is_falsy: "missing_or_empty v \<Longrightarrow> \<not> truthy v"
  by (auto simp: missing_or_empty_def)

lemma includes_iff_allowed: "includes_action v = action_allowed v"
  by (induction v rule: includes_action.induct) (auto simp: action_allowed_def valid_actions_def)

lemma createFile_missing:
  assumes "\<not> truthy (b ''topFolder'') \<or> \<not> truthy (b ''subFolder'')
           \<or> \<not> truthy (b ''filename'') \<or> \<not> truthy (b ''content'')"
  shows "createFile b post = (\<lparr>status = 400, body = error_body ''Missing required fields''\<rparr>, [])"
  using assms unfolding createFile_def by auto

text \<open>
  The first test is on truthiness, so \<^verbatim>\<open>null\<close>, \<^verbatim>\<open>false\<close> and \<^verbatim>\<open>0\<close> in a required
  field are answered like a missing field.
\<close>

lemma createFile_falsy_field:
  assumes "k \<in> {''topFolder'', ''subFolder'', ''filename'', ''content''}"
      and "b k \<in> {None, Some JNull, Some (JBool False), Some (JNum 0), Some (JStr [])}"
  shows "createFile b post = (\<lparr>status = 400, body = error_body ''Missing required fields''\<rparr>, [])"
proof -
  from assms(2) have "\<not> truthy (b k)" by auto
  with assms(1) show ?thesis by (intro createFile_missing) auto
qed

lemma createFile_invalid_action:
  assumes "truthy (b ''topFolder'')" "truthy (b ''subFolder'')"
          "truthy (b ''filename'')" "truthy (b ''content'')"
      and "\<not> includes_action (b ''action'')"
  shows "createFile b post = (\<lparr>status = 400, body = error_body ''Invalid action''\<rparr>, [])"
  using assms unfolding createFile_def by simp

lemma createFile_log_throws:
  assumes "truthy (b ''topFolder'')" "truthy (b ''subFolder'')"
          "truthy (b ''filename'')" "truthy (b ''content'')"
      and "includes_action (b ''action'')"
      and "\<not> (interpolates (b ''topFolder'') \<and> interpolates (b ''subFolder'')
              \<and> interpolates (b ''filename''))"
  shows "createFile b post =
           (\<lparr>status = 500, body = error_body ''Internal server error''\<rparr>, [])"
  using assms unfolding createFile_def by (auto simp: on_error_def)

lemma text_interpolates: "nonempty_text v \<Longrightarrow> interpolates v"
  by (induction v rule: nonempty_text.induct) (simp_all add: interpolates_def)

lemma action_interpolates: "includes_action v \<Longrightarrow> interpolates v"
  by (induction v rule: includes_action.induct) (simp_all add: interpolates_def)

lemma createFile_forwards:
  assumes "truthy (b ''topFolder'')" "truthy (b ''subFolder'')"
          "truthy (b ''filename'')" "truthy (b ''content'')"
      and "includes_action (b ''action'')"
      and "interpolates (b ''topFolder'')" "interpolates (b ''subFolder'')"
          "interpolates (b ''filename'')"
  shows "createFile b post =
           ((case post (forwarded b) of
               Resolved st d \<Rightarrow> \<lparr>status = 200, body = JsonBody d\<rparr>
             | Rejected e \<Rightarrow> on_error e), [forwarded b])"
  using assms unfolding createFile_def
  by (simp add: Let_def action_interpolates split: axios_result.splits)

lemma well_formed_forwards:
  assumes "well_formed b"
  shows "createFile b post =
           ((case post (forwarded b) of
               Resolved st d \<Rightarrow> \<lparr>status = 200, body = JsonBody d\<rparr>
             | Rejected e \<Rightarrow> on_error e), [forwarded b])"
  using assms unfolding well_formed_def
  by (intro createFile_forwards)
     (simp_all add: text_is_truthy text_interpolates includes_iff_allowed)

lemma truthy_defined: "truthy v \<Longrightarrow> \<exists>x. v = Some x"
  by (cases v) simp_all

lemma includes_defined: "includes_action v \<Longrightarrow> \<exists>x. v = Some x"
  by (cases v) simp_all

lemma forwarded_all_defined:
  assumes "b ''topFolder'' = Some t" "b ''subFolder'' = Some u" "b ''filename'' = Some f"
          "b ''content'' = Some c" "b ''action'' = Some a"
  shows "forwarded b = JObj [(''topFolder'', t), (''subFolder'', u), (''filename'', f),
                             (''content'', c), (''action'', a)]"
  using assms by (simp add: forwarded_def forwarded_fields_def List.map_filter_simps)

lemma map_filter_agree:
  "(\<forall>x \<in> set xs. f x = g x) \<Longrightarrow> List.map_filter f xs = List.map_filter g xs"
  by (induction xs) (auto simp: List.map_filter_simps split: option.splits)

lemma forwarded_cong:
  assumes "\<forall>k \<in> set forwarded_fields. b1 k = b2 k"
  shows "forwarded b1 = forwarded b2"
  unfolding forwarded_def using assms by (simp add: map_filter_agree)

lemma createFile_cong:
  assumes "\<forall>k \<in> set forwarded_fields. b1 k = b2 k"
  shows "createFile b1 post = createFile b2 post"
proof -
  have f: "forwarded b1 = forwarded b2" using assms by (rule forwarded_cong)
  have "b1 ''topFolder'' = b2 ''topFolder''" "b1 ''subFolder'' = b2 ''subFolder''"
       "b1 ''filename'' = b2 ''filename''" "b1 ''content'' = b2 ''content''"
       "b1 ''action'' = b2 ''action''"
    using assms by (simp_all add: forwarded_fields_def)
  then show ?thesis unfolding createFile_def f by simp
qed

lemma createFile_calls:
  "snd (createFile b post) = [] \<or>
   (snd (createFile b post) = [forwarded b] \<and> (\<forall>k \<in> set forwarded_fields. \<exists>v. b k = Some v))"
proof (cases "truthy (b ''topFolder'') \<and> truthy (b ''subFolder'') \<and> truthy (b ''filename'')
              \<and> truthy (b ''content'') \<and> includes_action (b ''action'')
              \<and> interpolates (b ''topFolder'') \<and> interpolates (b ''subFolder'')
              \<and> interpolates (b ''filename'')")
  case True
  then have "snd (createFile b post) = [forwarded b]"
    by (simp add: createFile_forwards)
  moreover have "\<forall>k \<in> set forwarded_fields. \<exists>v. b k = Some v"
    using True by (simp add: forwarded_fields_def truthy_defined includes_defined)
  ultimately show ?thesis by blast
next
  case False
  then have "snd (createFile b post) = []"
    unfolding createFile_def by auto
  then show ?thesis by blast
qed

lemma scenario_A_payload:
  "forwarded scenario_A =
     JObj [(''topFolder'', JStr ''DS''), (''subFolder'', JStr ''Arrays''),
           (''filename'', JStr ''a.cpp''), (''content'', JStr ''x''),
           (''action'', JStr ''check'')]"
  by (rule forwarded_all_defined) (simp_all add: scenario_A_def)

lemma scenario_A_well_formed: "well_formed scenario_A"
  by (simp add: well_formed_def scenario_A_def action_allowed_def)

lemma unprintable_folder_is_500:
  "createFile unprintable_folder creates_A =
     (\<lparr>status = 500, body = error_body ''Internal server error''\<rparr>, [])"
  by (rule createFile_log_throws)
     (simp_all add: unprintable_folder_def scenario_A_def valid_actions_def interpolates_def)


subsection \<open>Validation\<close>

text \<open>
  Claim C1. Whenever \<open>topFolder\<close>, \<open>subFolder\<close>, \<open>filename\<close> or \<open>content\<close> is missing or
  the empty string, or \<open>action\<close> is not one of check, overwrite, version, reject, the
  handler answers 400 with an error body and posts nothing to the persistence service.
\<close>

theorem createFile_rejects_malformed:
  assumes "missing_or_empty (b ''topFolder'') \<or> missing_or_empty (b ''subFolder'')
           \<or> missing_or_empty (b ''filename'') \<or> missing_or_empty (b ''content'')
           \<or> \<not> action_allowed (b ''action'')"
  shows "status (fst (createFile b post)) = 400
         \<and> body (fst (createFile b post))
               \<in> {error_body ''Missing required fields'', error_body ''Invalid action''}
         \<and> snd (createFile b post) = []"
proof (cases "truthy (b ''topFolder'') \<and> truthy (b ''subFolder'')
              \<and> truthy (b ''filename'') \<and> truthy (b ''content'')")
  case False
  then have "createFile b post =
               (\<lparr>status = 400, body = error_body ''Missing required fields''\<rparr>, [])"
    by (intro createFile_missing) blast
  then show ?thesis by simp
next
  case True
  with assms have "\<not> includes_action (b ''action'')"
    using empty_is_falsy includes_iff_allowed by blast
  with True have "createFile b post =
               (\<lparr>status = 400, body = error_body ''Invalid action''\<rparr>, [])"
    by (simp add: createFile_invalid_action)
  then show ?thesis by simp
qed

theorem createFile_rejects_malformed_witness:
  "missing_or_empty (empty_content ''content'')
   \<and> status (fst (createFile empty_content creates_A)) = 400
   \<and> snd (createFile empty_content creates_A) = []
   \<and> \<not> action_allowed (unknown_action ''action'')
   \<and> status (fst (createFile unknown_action creates_A)) = 400
   \<and> snd (createFile unknown_action creates_A) = []"
proof -
  have h1: "missing_or_empty (empty_content ''content'')"
    by (simp add: missing_or_empty_def empty_content_def)
  have h2: "\<not> action_allowed (unknown_action ''action'')"
    by (simp add: action_allowed_def unknown_action_def)
  from h1 have "status (fst (createFile empty_content creates_A)) = 400
      \<and> snd (createFile empty_content creates_A) = []"
    using createFile_rejects_malformed [of empty_content creates_A] by blast
  moreover from h2 have "status (fst (createFile unknown_action creates_A)) = 400
      \<and> snd (createFile unknown_action creates_A) = []"
    using createFile_rejects_malformed [of unknown_action creates_A] by blast
  ultimately show ?thesis using h1 h2 by blast
qed

text \<open>
  Claim C10. The four required fields are validated before \<open>action\<close>: a request with a
  missing or empty required field and an invalid action gets the missing-fields error,
  and a request whose four fields are non-empty text but whose action is absent or
  outside the enumeration gets the invalid-action error.
\<close>

theorem fields_checked_before_action:
  "((missing_or_empty (b ''topFolder'') \<or> missing_or_empty (b ''subFolder'')
      \<or> missing_or_empty (b ''filename'') \<or> missing_or_empty (b ''content''))
     \<and> \<not> action_allowed (b ''action'')
     \<longrightarrow> fst (createFile b post) =
           \<lparr>status = 400, body = error_body ''Missing required fields''\<rparr>)
   \<and> (nonempty_text (b ''topFolder'') \<and> nonempty_text (b ''subFolder'')
      \<and> nonempty_text (b ''filename'') \<and> nonempty_text (b ''content'')
      \<and> \<not> action_allowed (b ''action'')
     \<longrightarrow> fst (createFile b post) = \<lparr>status = 400, body = error_body ''Invalid action''\<rparr>)"
proof (intro conjI impI)
  assume "(missing_or_empty (b ''topFolder'') \<or> missing_or_empty (b ''subFolder'')
      \<or> missing_or_empty (b ''filename'') \<or> missing_or_empty (b ''content''))
     \<and> \<not> action_allowed (b ''action'')"
  then have "\<not> truthy (b ''topFolder'') \<or> \<not> truthy (b ''subFolder'')
           \<or> \<not> truthy (b ''filename'') \<or> \<not> truthy (b ''content'')"
    using empty_is_falsy by blast
  then show "fst (createFile b post) =
           \<lparr>status = 400, body = error_body ''Missing required fields''\<rparr>"
    by (simp add: createFile_missing)
next
  assume "nonempty_text (b ''topFolder'') \<and> nonempty_text (b ''subFolder'')
      \<and> nonempty_text (b ''filename'') \<and> nonempty_text (b ''content'')
      \<and> \<not> action_allowed (b ''action'')"
  then show "fst (createFile b post) = \<lparr>status = 400, body = error_body ''Invalid action''\<rparr>"
    by (simp add: createFile_invalid_action text_is_truthy includes_iff_allowed)
qed

theorem fields_checked_before_action_witness:
  "missing_or_empty (empty_and_unknown ''filename'')
   \<and> \<not> action_allowed (empty_and_unknown ''action'')
   \<and> fst (createFile empty_and_unknown creates_A) =
       \<lparr>status = 400, body = error_body ''Missing required fields''\<rparr>
   \<and> nonempty_text (no_action ''topFolder'') \<and> nonempty_text (no_action ''subFolder'')
   \<and> nonempty_text (no_action ''filename'') \<and> nonempty_text (no_action ''content'')
   \<and> \<not> action_allowed (no_action ''action'')
   \<and> fst (createFile no_action creates_A) =
       \<lparr>status = 400, body = error_body ''Invalid action''\<rparr>"
proof -
  have h1: "missing_or_empty (empty_and_unknown ''filename'')
            \<and> \<not> action_allowed (empty_and_unknown ''action'')"
    by (simp add: missing_or_empty_def action_allowed_def empty_and_unknown_def)
  have h2: "nonempty_text (no_action ''topFolder'') \<and> nonempty_text (no_action ''subFolder'')
            \<and> nonempty_text (no_action ''filename'') \<and> nonempty_text (no_action ''content'')
            \<and> \<not> action_allowed (no_action ''action'')"
    by (simp add: action_allowed_def no_action_def scenario_A_def)
  from h1 have "fst (createFile empty_and_unknown creates_A) =
       \<lparr>status = 400, body = error_body ''Missing required fields''\<rparr>"
    using fields_checked_before_action [of empty_and_unknown creates_A] by blast
  moreover from h2 have "fst (createFile no_action creates_A) =
       \<lparr>status = 400, body = error_body ''Invalid action''\<rparr>"
    using fields_checked_before_action [of no_action creates_A] by blast
  ultimately show ?thesis using h1 h2 by blast
qed


subsection \<open>Forwarding\<close>

text \<open>
  Claim C9. The payload posted to the persistence service consists of exactly the five
  fields \<open>topFolder\<close>, \<open>subFolder\<close>, \<open>filename\<close>, \<open>content\<close>, \<open>action\<close> of the body, with the
  body's values: two bodies that agree on these five names get the same reply and the
  same posted payloads from the same persistence service, whatever else they contain.
\<close>

theorem only_five_fields_forwarded:
  assumes "\<forall>k \<in> set forwarded_fields. b1 k = b2 k"
  shows "createFile b1 post = createFile b2 post
         \<and> (\<forall>p \<in> set (snd (createFile b1 post)).
               \<exists>t u f c a.
                 p = JObj [(''topFolder'', t), (''subFolder'', u), (''filename'', f),
                           (''content'', c), (''action'', a)]
                 \<and> b1 ''topFolder'' = Some t \<and> b1 ''subFolder'' = Some u
                 \<and> b1 ''filename'' = Some f \<and> b1 ''content'' = Some c
                 \<and> b1 ''action'' = Some a)"
proof
  show "createFile b1 post = createFile b2 post"
    using assms by (rule createFile_cong)
next
  show "\<forall>p \<in> set (snd (createFile b1 post)).
               \<exists>t u f c a.
                 p = JObj [(''topFolder'', t), (''subFolder'', u), (''filename'', f),
                           (''content'', c), (''action'', a)]
                 \<and> b1 ''topFolder'' = Some t \<and> b1 ''subFolder'' = Some u
                 \<and> b1 ''filename'' = Some f \<and> b1 ''content'' = Some c
                 \<and> b1 ''action'' = Some a"
  proof
    fix p assume p: "p \<in> set (snd (createFile b1 post))"
    with createFile_calls [of b1 post]
    have sent: "p = forwarded b1" and "\<forall>k \<in> set forwarded_fields. \<exists>v. b1 k = Some v"
      by auto
    then obtain t u f c a where
      d: "b1 ''topFolder'' = Some t" "b1 ''subFolder'' = Some u" "b1 ''filename'' = Some f"
         "b1 ''content'' = Some c" "b1 ''action'' = Some a"
      by (auto simp: forwarded_fields_def)
    with sent have "p = JObj [(''topFolder'', t), (''subFolder'', u), (''filename'', f),
                           (''content'', c), (''action'', a)]"
      by (simp add: forwarded_all_defined)
    with d show "\<exists>t u f c a.
                 p = JObj [(''topFolder'', t), (''subFolder'', u), (''filename'', f),
                           (''content'', c), (''action'', a)]
                 \<and> b1 ''topFolder'' = Some t \<and> b1 ''subFolder'' = Some u
                 \<and> b1 ''filename'' = Some f \<and> b1 ''content'' = Some c
                 \<and> b1 ''action'' = Some a"
      by blast
  qed
qed

theorem only_five_fields_forwarded_witness:
  "extra_fields ''admin'' = Some (JBool True) \<and> scenario_A ''admin'' = None
   \<and> createFile extra_fields creates_A = createFile scenario_A creates_A
   \<and> createFile extra_fields creates_A =
        (\<lparr>status = 200, body = JsonBody created_A\<rparr>,
         [JObj [(''topFolder'', JStr ''DS''), (''subFolder'', JStr ''Arrays''),
                (''filename'', JStr ''a.cpp''), (''content'', JStr ''x''),
                (''action'', JStr ''check'')]])"
proof -
  have h: "\<forall>k \<in> set forwarded_fields. extra_fields k = scenario_A k"
    by (simp add: forwarded_fields_def extra_fields_def)
  from h have same: "createFile extra_fields creates_A = createFile scenario_A creates_A"
    using only_five_fields_forwarded [of extra_fields scenario_A creates_A] by blast
  have extra: "extra_fields ''admin'' = Some (JBool True) \<and> scenario_A ''admin'' = None"
    by (simp add: extra_fields_def scenario_A_def)
  have "createFile scenario_A creates_A =
        (\<lparr>status = 200, body = JsonBody created_A\<rparr>, [forwarded scenario_A])"
    by (simp add: well_formed_forwards scenario_A_well_formed creates_A_def)
  with same extra show ?thesis
    by (simp add: scenario_A_payload)
qed

text \<open>
  Claim C5. For a well-formed request, when the persistence service answers with a
  status outside 2xx (\<^verbatim>\<open>axios\<close> rejects with \<^verbatim>\<open>error.response\<close> set; its
  \<^verbatim>\<open>error.code\<close> is then not \<^verbatim>\<open>ECONNREFUSED\<close>, since a connection was made), the
  reply carries that status and that data; when it answers with success, the reply
  carries its data.
\<close>

theorem upstream_answer_passes_through:
  assumes "well_formed b"
  shows "(post (forwarded b) = Rejected e \<and> response e = Some (st, d)
           \<and> code e \<noteq> Some ''ECONNREFUSED''
          \<longrightarrow> fst (createFile b post) = \<lparr>status = st, body = JsonBody d\<rparr>)
         \<and> (post (forwarded b) = Resolved st' d'
          \<longrightarrow> fst (createFile b post) = \<lparr>status = 200, body = JsonBody d'\<rparr>)"
  using assms by (simp add: well_formed_forwards on_error_def)

theorem upstream_answer_passes_through_witness:
  "well_formed scenario_A
   \<and> response conflict =
        Some (409, JObj [(''success'', JBool False), (''error'', JStr ''conflict'')])
   \<and> code conflict \<noteq> Some ''ECONNREFUSED''
   \<and> fst (createFile scenario_A (\<lambda>p. Rejected conflict)) =
        \<lparr>status = 409,
         body = JsonBody (JObj [(''success'', JBool False), (''error'', JStr ''conflict'')])\<rparr>
   \<and> creates_A (forwarded scenario_A) = Resolved 201 created_A
   \<and> fst (createFile scenario_A creates_A) = \<lparr>status = 200, body = JsonBody created_A\<rparr>"
proof -
  have h1: "response conflict =
        Some (409, JObj [(''success'', JBool False), (''error'', JStr ''conflict'')])"
    and h2: "code conflict \<noteq> Some ''ECONNREFUSED''"
    by (simp_all add: conflict_def)
  have h3: "creates_A (forwarded scenario_A) = Resolved 201 created_A"
    by (simp add: creates_A_def)
  from h1 h2 have "fst (createFile scenario_A (\<lambda>p. Rejected conflict)) =
        \<lparr>status = 409,
         body = JsonBody (JObj [(''success'', JBool False), (''error'', JStr ''conflict'')])\<rparr>"
    using upstream_answer_passes_through [OF scenario_A_well_formed,
        of "\<lambda>p. Rejected conflict" conflict 409] by simp
  moreover from h3 have "fst (createFile scenario_A creates_A) =
        \<lparr>status = 200, body = JsonBody created_A\<rparr>"
    using upstream_answer_passes_through [OF scenario_A_well_formed, of creates_A] by blast
  ultimately show ?thesis using h1 h2 h3 scenario_A_well_formed by blast
qed

text \<open>
  Claim C4 as stated fails: when the 30 second timeout expires, \<^verbatim>\<open>axios\<close> rejects
  with code \<^verbatim>\<open>ECONNABORTED\<close> and no response, which is neither of the two cases the
  \<^verbatim>\<open>catch\<close> block tests for, and the well-formed request of scenario A is answered
  500, not 503.
\<close>

theorem timeout_is_answered_500:
  "well_formed scenario_A
   \<and> fst (createFile scenario_A (\<lambda>p. Rejected timed_out)) =
        \<lparr>status = 500, body = error_body ''Internal server error''\<rparr>
   \<and> status (fst (createFile scenario_A (\<lambda>p. Rejected timed_out))) \<noteq> 503"
  by (simp add: well_formed_forwards scenario_A_well_formed on_error_def timed_out_def)

text \<open>
  Claim C4, amended. For a well-formed request whose forwarding is rejected with code
  \<^verbatim>\<open>ECONNREFUSED\<close> the reply is 503 with the service-unavailable message; a rejection
  with any other code and no upstream response (a timeout among them) is answered 500
  with the generic message.
\<close>

theorem refused_connection_is_503:
  assumes "well_formed b" and "post (forwarded b) = Rejected e"
  shows "(code e = Some ''ECONNREFUSED''
          \<longrightarrow> fst (createFile b post) =
                \<lparr>status = 503,
                 body = error_body ''Python service not available. Is it running on port 5000?''\<rparr>)
         \<and> (code e \<noteq> Some ''ECONNREFUSED'' \<and> response e = None
          \<longrightarrow> fst (createFile b post) =
                \<lparr>status = 500, body = error_body ''Internal server error''\<rparr>)"
  using assms by (simp add: well_formed_forwards on_error_def)

theorem refused_connection_is_503_witness:
  "well_formed scenario_A
   \<and> code refused = Some ''ECONNREFUSED''
   \<and> fst (createFile scenario_A (\<lambda>p. Rejected refused)) =
        \<lparr>status = 503,
         body = error_body ''Python service not available. Is it running on port 5000?''\<rparr>
   \<and> code timed_out \<noteq> Some ''ECONNREFUSED'' \<and> response timed_out = None
   \<and> fst (createFile scenario_A (\<lambda>p. Rejected timed_out)) =
        \<lparr>status = 500, body = error_body ''Internal server error''\<rparr>"
proof -
  have h1: "code refused = Some ''ECONNREFUSED''"
    by (simp add: refused_def)
  have h2: "code timed_out \<noteq> Some ''ECONNREFUSED'' \<and> response timed_out = None"
    by (simp add: timed_out_def)
  from h1 have "fst (createFile scenario_A (\<lambda>p. Rejected refused)) =
        \<lparr>status = 503,
         body = error_body ''Python service not available. Is it running on port 5000?''\<rparr>"
    using refused_connection_is_503 [OF scenario_A_well_formed, of "\<lambda>p. Rejected refused" refused]
    by simp
  moreover from h2 have "fst (createFile scenario_A (\<lambda>p. Rejected timed_out)) =
        \<lparr>status = 500, body = error_body ''Internal server error''\<rparr>"
    using refused_connection_is_503 [OF scenario_A_well_formed,
        of "\<lambda>p. Rejected timed_out" timed_out]
    by simp
  ultimately show ?thesis using h1 h2 scenario_A_well_formed by blast
qed


section \<open>Properties of the listing client\<close>

lemma dom_obj_set:
  "dom (obj_set t k v) = (if k = ''__proto__'' then dom t else insert k (dom t))"
  by (simp add: obj_set_def)

lemma dom_fill_tree:
  "dom (fill_tree sub fs t) = dom t \<union> (name ` set fs - {''__proto__''})"
  by (induction fs arbitrary: t) (auto simp: dom_obj_set)

lemma fill_tree_other:
  "k \<notin> name ` set fs \<Longrightarrow> fill_tree sub fs t k = t k"
  by (induction fs arbitrary: t) (auto simp: obj_set_def)

lemma fill_tree_proto:
  "fill_tree sub fs t ''__proto__'' = t ''__proto__''"
  by (induction fs arbitrary: t) (auto simp: obj_set_def)

lemma fill_tree_lookup:
  "k \<in> name ` set fs \<Longrightarrow> k \<noteq> ''__proto__'' \<Longrightarrow>
   fill_tree sub fs t k = Some (subFolders (sub k))"
proof (induction fs arbitrary: t)
  case Nil
  then show ?case by simp
next
  case (Cons f rest)
  show ?case
  proof (cases "k \<in> name ` set rest")
    case True
    with Cons show ?thesis by simp
  next
    case False
    with Cons.prems have "name f = k" by auto
    with False Cons.prems show ?thesis
      by (simp add: fill_tree_other obj_set_def)
  qed
qed

lemma subFolders_failed:
  "r = GhFailed \<or> r = GhOk NotAListing \<Longrightarrow> subFolders r = []"
  by auto

lemma subFolders_only_dirs:
  "x \<in> set (subFolders r) \<Longrightarrow>
   \<exists>items i. r = GhOk (Listing items) \<and> i \<in> set items \<and> type i = ''dir'' \<and> name i = x"
  by (induction r rule: subFolders.induct) (auto simp: only_dirs_def)


text \<open>
  Isolation of a failing request, for every directory name but \<^verbatim>\<open>__proto__\<close>: when
  the root listing succeeds and the request made for the directory \<open>d\<close> fails, the fetch
  succeeds, \<open>d\<close> is mapped to the empty list, every other such directory is mapped to
  the directory names in the answer to the request made for it, and only root entries
  of type \<^verbatim>\<open>dir\<close> appear as keys and only entries of type \<^verbatim>\<open>dir\<close> as subfolders.
\<close>

lemma fetch_isolates_failed_folder:
  assumes "contents_root gh = GhOk (Listing items)"
      and "d \<in> set items" and "type d = ''dir''" and "name d \<noteq> ''__proto__''"
      and "contents_of gh (name d) = GhFailed \<or> contents_of gh (name d) = GhOk NotAListing"
  shows "\<exists>T. fetchFoldersFromGitHub gh = Inr T
           \<and> T (name d) = Some []
           \<and> (\<forall>i \<in> set items. type i = ''dir'' \<and> name i \<noteq> ''__proto__''
                \<longrightarrow> T (name i) = Some (subFolders (contents_of gh (name i))))
           \<and> (\<forall>k \<in> dom T. \<exists>i \<in> set items. type i = ''dir'' \<and> name i = k)
           \<and> (\<forall>k subs x. T k = Some subs \<and> x \<in> set subs
                \<longrightarrow> (\<exists>children c. contents_of gh k = GhOk (Listing children)
                       \<and> c \<in> set children \<and> type c = ''dir'' \<and> name c = x))"
proof -
  define T where "T = fill_tree (contents_of gh) (only_dirs items) Map.empty"
  have f: "fetchFoldersFromGitHub gh = Inr T"
    using assms(1) by (simp add: fetchFoldersFromGitHub_def T_def)
  have d: "dom T = {name i | i. i \<in> set items \<and> type i = ''dir''} - {''__proto__''}"
    by (auto simp: T_def dom_fill_tree only_dirs_def)
  have v: "\<forall>k \<in> dom T. T k = Some (subFolders (contents_of gh k))"
  proof
    fix k assume "k \<in> dom T"
    then have "k \<in> name ` set (only_dirs items)" and "k \<noteq> ''__proto__''"
      by (auto simp: T_def dom_fill_tree)
    then show "T k = Some (subFolders (contents_of gh k))"
      unfolding T_def by (rule fill_tree_lookup)
  qed
  have keys: "\<forall>i \<in> set items. type i = ''dir'' \<and> name i \<noteq> ''__proto__''
                \<longrightarrow> T (name i) = Some (subFolders (contents_of gh (name i)))"
  proof (intro ballI impI)
    fix i assume "i \<in> set items" and "type i = ''dir'' \<and> name i \<noteq> ''__proto__''"
    then have "name i \<in> dom T" unfolding d by blast
    with v show "T (name i) = Some (subFolders (contents_of gh (name i)))" by blast
  qed
  have "subFolders (contents_of gh (name d)) = []"
    using assms(5) by (rule subFolders_failed)
  with keys assms(2-4) have failing: "T (name d) = Some []"
    by simp
  have dirs: "\<forall>k \<in> dom T. \<exists>i \<in> set items. type i = ''dir'' \<and> name i = k"
    unfolding d by blast
  have subs: "\<forall>k subs x. T k = Some subs \<and> x \<in> set subs
                \<longrightarrow> (\<exists>children c. contents_of gh k = GhOk (Listing children)
                       \<and> c \<in> set children \<and> type c = ''dir'' \<and> name c = x)"
  proof (intro allI impI)
    fix k subs x assume a: "T k = Some subs \<and> x \<in> set subs"
    then have "k \<in> dom T" by blast
    with v have "T k = Some (subFolders (contents_of gh k))" by blast
    with a have "x \<in> set (subFolders (contents_of gh k))" by simp
    then show "\<exists>children c. contents_of gh k = GhOk (Listing children)
                       \<and> c \<in> set children \<and> type c = ''dir'' \<and> name c = x"
      by (rule subFolders_only_dirs)
  qed
  from f failing keys dirs subs show ?thesis by (intro exI [of _ T] conjI)
qed

text \<open>
  Claim C6 says that the tree has a key for every top-level directory, the failing one
  mapped to the empty list. In the repository \<open>proto_repo\<close> the root lists the
  directories \<^verbatim>\<open>DS\<close> and \<^verbatim>\<open>__proto__\<close>, and listing \<^verbatim>\<open>__proto__\<close> fails: the fetch
  succeeds, and the tree it returns has no key \<^verbatim>\<open>__proto__\<close>.
\<close>

theorem proto_directory_gets_no_key:
  "contents_root proto_repo =
     GhOk (Listing [\<lparr>name = ''DS'', type = ''dir''\<rparr>, \<lparr>name = ''__proto__'', type = ''dir''\<rparr>])
   \<and> contents_of proto_repo ''__proto__'' = GhFailed
   \<and> fetchFoldersFromGitHub proto_repo = Inr proto_tree
   \<and> proto_tree ''__proto__'' = None"
  by (simp add: fetchFoldersFromGitHub_def proto_repo_def proto_tree_def only_dirs_def
      repo_contents_def obj_set_def)


section \<open>Properties of the folder cache\<close>


lemma cached_is_cache:
  "cached s now = Some t \<Longrightarrow> folderCache s = Some t \<and> fresh_entry s now"
  by (auto simp: cached_def fresh_entry_def split: option.splits if_splits)

lemma not_fresh_no_hit: "\<not> fresh_entry s now \<Longrightarrow> cached s now = None"
  by (auto simp: cached_def fresh_entry_def split: option.splits)

lemma getFolders_hit:
  "cached s now = Some t \<Longrightarrow>
   getFolders s now gh stamp = (s, \<lparr>status = 200, body = TreeBody t\<rparr>, 0)"
  by (simp add: getFolders_def)

lemma getFolders_fetched:
  "cached s now = None \<Longrightarrow> fetchFoldersFromGitHub gh = Inr t \<Longrightarrow>
   getFolders s now gh stamp =
     (\<lparr>folderCache = Some t, cacheTimestamp = Some stamp\<rparr>,
      \<lparr>status = 200, body = TreeBody t\<rparr>, 1)"
  by (simp add: getFolders_def)

lemma getFolders_fallback:
  "cached s now = None \<Longrightarrow> fetchFoldersFromGitHub gh = Inl err \<Longrightarrow>
   getFolders s now gh stamp =
     (s, \<lparr>status = 200, body = TreeBody getFallbackFolders\<rparr>, 1)"
  by (simp add: getFolders_def)


lemma dom_getFallbackFolders:
  "dom getFallbackFolders = {''DS'', ''Patterns'', ''Algorithms'', ''Practice''}"
  by (auto simp: getFallbackFolders_def)

lemma handle_cases:
  "fst (handle s r) = s \<or>
   (\<exists>now gh stamp t. r = Folders now gh stamp \<and> cached s now = None
      \<and> fetchFoldersFromGitHub gh = Inr t
      \<and> handle s r = (\<lparr>folderCache = Some t, cacheTimestamp = Some stamp\<rparr>,
                       \<lparr>status = 200, body = TreeBody t\<rparr>))"
proof (cases r)
  case (Folders now gh stamp)
  show ?thesis
  proof (cases "cached s now")
    case None
    show ?thesis
    proof (cases "fetchFoldersFromGitHub gh")
      case (Inl err)
      with None Folders show ?thesis by (simp add: getFolders_fallback)
    next
      case (Inr t)
      with None Folders show ?thesis by (simp add: getFolders_fetched)
    qed
  next
    case (Some t)
    with Folders show ?thesis by (simp add: getFolders_hit)
  qed
qed simp_all

lemma handle_keeps_entry:
  "(folderCache s \<noteq> None \<longrightarrow> folderCache (fst (handle s r)) \<noteq> None)
   \<and> (cacheTimestamp s \<noteq> None \<longrightarrow> cacheTimestamp (fst (handle s r)) \<noteq> None)"
  using handle_cases [of s r] by auto

lemma handle_both_or_neither:
  "(folderCache s = None \<longleftrightarrow> cacheTimestamp s = None) \<Longrightarrow>
   (folderCache (fst (handle s r)) = None \<longleftrightarrow> cacheTimestamp (fst (handle s r)) = None)"
  using handle_cases [of s r] by auto

lemma serve_both_or_neither:
  "(folderCache s = None \<longleftrightarrow> cacheTimestamp s = None) \<Longrightarrow>
   (folderCache (serve s rs) = None \<longleftrightarrow> cacheTimestamp (serve s rs) = None)"
proof (induction rs arbitrary: s)
  case Nil
  then show ?case by simp
next
  case (Cons r rs)
  from Cons.prems have "folderCache (fst (handle s r)) = None
      \<longleftrightarrow> cacheTimestamp (fst (handle s r)) = None"
    by (rule handle_both_or_neither)
  then show ?case using Cons.IH by simp
qed

lemma serve_keeps_entry:
  "folderCache s \<noteq> None \<Longrightarrow> folderCache (serve s rs) \<noteq> None"
proof (induction rs arbitrary: s)
  case Nil
  then show ?case by simp
next
  case (Cons r rs)
  from Cons.prems have "folderCache (fst (handle s r)) \<noteq> None"
    using handle_keeps_entry [of s r] by blast
  then show ?case using Cons.IH by simp
qed

lemma reachable_entry:
  "has_entry (serve initial rs) \<longleftrightarrow> folderCache (serve initial rs) \<noteq> None"
  using serve_both_or_neither [of initial rs] by (auto simp: has_entry_def initial_def)

lemma repo_fetch: "fetchFoldersFromGitHub repo = Inr repo_tree"
  by (simp add: fetchFoldersFromGitHub_def repo_def repo_tree_def only_dirs_def
      repo_contents_def obj_set_def)

lemma unreachable_fetch: "fetchFoldersFromGitHub unreachable = Inl RequestFailed"
  by (simp add: fetchFoldersFromGitHub_def unreachable_def)





text \<open>
  Claim C3. When no entry is fresh and the fetch fails, the call answers 200 with the
  fallback tree, which is fixed and not empty, and the state is the state before the call.
\<close>

theorem failed_fetch_falls_back:
  assumes "\<not> fresh_entry s now" and "fetchFoldersFromGitHub gh = Inl err"
  shows "getFolders s now gh stamp =
           (s, \<lparr>status = 200, body = TreeBody getFallbackFolders\<rparr>, 1)
         \<and> dom getFallbackFolders \<noteq> {}"
  using assms by (simp add: getFolders_fallback not_fresh_no_hit dom_getFallbackFolders)

theorem failed_fetch_falls_back_witness:
  "\<not> fresh_entry initial 1000 \<and> \<not> fresh_entry warm_cache 301200
   \<and> fetchFoldersFromGitHub unreachable = Inl RequestFailed
   \<and> getFolders initial 1000 unreachable 1200 =
        (initial, \<lparr>status = 200, body = TreeBody getFallbackFolders\<rparr>, 1)
   \<and> getFolders warm_cache 301200 unreachable 301500 =
        (warm_cache, \<lparr>status = 200, body = TreeBody getFallbackFolders\<rparr>, 1)"
proof -
  have h1: "\<not> fresh_entry initial 1000"
    by (simp add: fresh_entry_def initial_def)
  have h2: "\<not> fresh_entry warm_cache 301200"
    by (simp add: fresh_entry_def warm_cache_def CACHE_TTL_def)
  have "getFolders initial 1000 unreachable 1200 =
        (initial, \<lparr>status = 200, body = TreeBody getFallbackFolders\<rparr>, 1)"
    using failed_fetch_falls_back [OF h1 unreachable_fetch] by blast
  moreover have "getFolders warm_cache 301200 unreachable 301500 =
        (warm_cache, \<lparr>status = 200, body = TreeBody getFallbackFolders\<rparr>, 1)"
    using failed_fetch_falls_back [OF h2 unreachable_fetch] by blast
  ultimately show ?thesis using h1 h2 unreachable_fetch by blast
qed

text \<open>
  Claim C7. A request leaves the state as it was unless it is a listing call that
  missed the cache and whose fetch succeeded; that call replaces both variables by the
  fetched tree and the clock reading and replies with the tree. No request unsets a
  variable that was set.
\<close>

theorem cache_written_only_by_successful_fetch:
  "(fst (handle s r) = s
    \<or> (\<exists>now gh stamp t. r = Folders now gh stamp \<and> cached s now = None
          \<and> fetchFoldersFromGitHub gh = Inr t))
   \<and> (cached s now = None \<and> fetchFoldersFromGitHub gh = Inr t
      \<longrightarrow> handle s (Folders now gh stamp) =
            (\<lparr>folderCache = Some t, cacheTimestamp = Some stamp\<rparr>,
             \<lparr>status = 200, body = TreeBody t\<rparr>))
   \<and> (folderCache s \<noteq> None \<longrightarrow> folderCache (fst (handle s r)) \<noteq> None)
   \<and> (cacheTimestamp s \<noteq> None \<longrightarrow> cacheTimestamp (fst (handle s r)) \<noteq> None)"
proof (intro conjI)
  show "fst (handle s r) = s
    \<or> (\<exists>now gh stamp t. r = Folders now gh stamp \<and> cached s now = None
          \<and> fetchFoldersFromGitHub gh = Inr t)"
    using handle_cases [of s r] by blast
  show "cached s now = None \<and> fetchFoldersFromGitHub gh = Inr t
      \<longrightarrow> handle s (Folders now gh stamp) =
            (\<lparr>folderCache = Some t, cacheTimestamp = Some stamp\<rparr>,
             \<lparr>status = 200, body = TreeBody t\<rparr>)"
    by (simp add: getFolders_fetched)
  show "folderCache s \<noteq> None \<longrightarrow> folderCache (fst (handle s r)) \<noteq> None"
    using handle_keeps_entry [of s r] by blast
  show "cacheTimestamp s \<noteq> None \<longrightarrow> cacheTimestamp (fst (handle s r)) \<noteq> None"
    using handle_keeps_entry [of s r] by blast
qed


theorem cache_written_only_by_successful_fetch_witness:
  "cached initial 1000 = None \<and> fetchFoldersFromGitHub repo = Inr repo_tree
   \<and> handle initial (Folders 1000 repo 1200) =
        (warm_cache, \<lparr>status = 200, body = TreeBody repo_tree\<rparr>)
   \<and> fst (handle warm_cache Health) = warm_cache
   \<and> fst (handle warm_cache (CreateFile empty_content creates_A)) = warm_cache
   \<and> fst (handle warm_cache (CreateFile scenario_A creates_A)) = warm_cache
   \<and> folderCache warm_cache \<noteq> None
   \<and> folderCache (fst (handle warm_cache (Folders 301200 unreachable 301500))) \<noteq> None"
proof -
  have h: "cached initial 1000 = None \<and> fetchFoldersFromGitHub repo = Inr repo_tree"
    by (simp add: cached_def initial_def repo_fetch)
  have e: "folderCache warm_cache \<noteq> None"
    by (simp add: warm_cache_def)
  from h have "handle initial (Folders 1000 repo 1200) =
        (warm_cache, \<lparr>status = 200, body = TreeBody repo_tree\<rparr>)"
    using cache_written_only_by_successful_fetch
      [where s = initial and now = 1000 and gh = repo and t = repo_tree and stamp = 1200]
    by (simp add: warm_cache_def)
  moreover have "fst (handle warm_cache Health) = warm_cache"
    using cache_written_only_by_successful_fetch [where s = warm_cache and r = Health]
    by simp
  moreover have "fst (handle warm_cache (CreateFile empty_content creates_A)) = warm_cache"
    using cache_written_only_by_successful_fetch
      [where s = warm_cache and r = "CreateFile empty_content creates_A"]
    by simp
  moreover have "fst (handle warm_cache (CreateFile scenario_A creates_A)) = warm_cache"
    using cache_written_only_by_successful_fetch
      [where s = warm_cache and r = "CreateFile scenario_A creates_A"]
    by simp
  moreover from e
  have "folderCache (fst (handle warm_cache (Folders 301200 unreachable 301500))) \<noteq> None"
    using cache_written_only_by_successful_fetch
      [where s = warm_cache and r = "Folders 301200 unreachable 301500"]
    by blast
  ultimately show ?thesis using h e by blast
qed

section \<open>Properties of the health check\<close>

text \<open>
  Claim C8. The health reply has status 200 and the fields \<open>status\<close>, \<open>service\<close> and
  \<open>cacheStatus\<close>; \<open>cacheStatus\<close> is \<^verbatim>\<open>loaded\<close> exactly when \<open>folderCache\<close> is set, which
  in every state the gateway reaches from its initial state is exactly when an entry
  exists. No clock reading takes part.
\<close>

theorem health_reports_cache:
  "status (health s) = 200
   \<and> (\<exists>c. body (health s) = health_body c \<and> (c = ''loaded'' \<longleftrightarrow> folderCache s \<noteq> None))
   \<and> (has_entry (serve initial rs) \<longleftrightarrow> folderCache (serve initial rs) \<noteq> None)"
  by (simp add: health_def health_body_def reachable_entry)

theorem health_reports_cache_witness:
  "health initial = \<lparr>status = 200, body = health_body ''empty''\<rparr>
   \<and> \<not> has_entry initial
   \<and> serve initial [Folders 1000 repo 1200, Health] = warm_cache
   \<and> has_entry warm_cache
   \<and> health warm_cache = \<lparr>status = 200, body = health_body ''loaded''\<rparr>"
proof -
  have run: "serve initial [Folders 1000 repo 1200, Health] = warm_cache"
    by (simp add: getFolders_def cached_def initial_def repo_fetch warm_cache_def)
  have "has_entry (serve initial [Folders 1000 repo 1200, Health])
        \<longleftrightarrow> folderCache (serve initial [Folders 1000 repo 1200, Health]) \<noteq> None"
    using health_reports_cache [of initial "[Folders 1000 repo 1200, Health]"] by blast
  with run have "has_entry warm_cache"
    by (simp add: warm_cache_def)
  moreover have "\<not> has_entry initial"
    by (simp add: has_entry_def initial_def)
  moreover have "health initial = \<lparr>status = 200, body = health_body ''empty''\<rparr>"
    by (simp add: health_def health_body_def initial_def)
  moreover have "health warm_cache = \<lparr>status = 200, body = health_body ''loaded''\<rparr>"
    by (simp add: health_def health_body_def warm_cache_def)
  ultimately show ?thesis using run by blast
qed


end
